theory Spec2Isabelle
  imports Complex_Main "HOL-Library.Word" "HOL-Library.Sublist"
begin

section \<open>JavaScript strings\<close>

text \<open>
  A JavaScript string is a sequence of UTF-16 code units: \<open>length\<close>, \<open>slice\<close>, \<open>trim\<close>
  and the regular expressions of the program all count and compare code units.
  \<open>js\<close> writes an ASCII literal as such a sequence.
\<close>

type_synonym code_unit = "16 word"
type_synonym jstring = "code_unit list"

definition js :: "string \<Rightarrow> jstring" where
  "js s = map of_char s"

text \<open>
  \<open>String.prototype.trim\<close> strips white space and line terminators from both ends:
  TAB, LF, VT, FF, CR, SP, NBSP, U+1680, U+2000 to U+200A, U+2028, U+2029, U+202F,
  U+205F, U+3000 and U+FEFF.
\<close>

definition is_space :: "code_unit \<Rightarrow> bool" where
  "is_space c \<longleftrightarrow>
     c = 0x09 \<or> c = 0x0A \<or> c = 0x0B \<or> c = 0x0C \<or> c = 0x0D \<or> c = 0x20 \<or> c = 0xA0 \<or>
     c = 0x1680 \<or> (0x2000 \<le> c \<and> c \<le> 0x200A) \<or> c = 0x2028 \<or> c = 0x2029 \<or>
     c = 0x202F \<or> c = 0x205F \<or> c = 0x3000 \<or> c = 0xFEFF"

definition trim :: "jstring \<Rightarrow> jstring" where
  "trim s = rev (dropWhile is_space (rev (dropWhile is_space s)))"

text \<open>
  \<open>find_first p s\<close> is the leftmost occurrence of the literal \<open>p\<close> in \<open>s\<close>: the text
  before it and the text after it. The regular expressions of the program are literals
  followed by \<open>.*\<close> or \<open>.*?\<close> under the \<open>s\<close> flag (the dot matches every code unit), so
  each match is found by one or two such searches.
\<close>

fun find_first :: "'a list \<Rightarrow> 'a list \<Rightarrow> ('a list \<times> 'a list) option" where
  "find_first p [] = (if p = [] then Some ([], []) else None)"
| "find_first p (c # cs) =
     (if prefix p (c # cs) then Some ([], drop (length p) (c # cs))
      else map_option (\<lambda>(b, a). (c # b, a)) (find_first p cs))"

definition marker :: jstring where
  "marker = js ''QUOTES_JSON:''"

definition quotes_open :: jstring where
  \<open>quotes_open = js ''{"quotes":[''\<close>

definition quotes_close :: jstring where
  "quotes_close = js '']}''"

section \<open>JSON values and \<open>JSON.parse\<close>\<close>

text \<open>
  The values \<open>JSON.parse\<close> returns. A number carries the exact value of its token (the
  runtime stores the nearest IEEE double). An object keeps one entry per key, in the
  order in which the keys first occur.
\<close>

datatype json =
    JNull
  | JBool bool
  | JNum rat
  | JStr jstring
  | JArr "json list"
  | JObj "(jstring \<times> json) list"

datatype token =
    LBrace | RBrace | LBracket | RBracket | Colon | Comma
  | TStr jstring | TNum rat | TTrue | TFalse | TNull

definition json_ws :: "code_unit \<Rightarrow> bool" where
  "json_ws c \<longleftrightarrow> c = 0x20 \<or> c = 0x09 \<or> c = 0x0A \<or> c = 0x0D"

definition is_digit :: "code_unit \<Rightarrow> bool" where
  "is_digit c \<longleftrightarrow> 0x30 \<le> c \<and> c \<le> 0x39"

definition hex_val :: "code_unit \<Rightarrow> nat option" where
  "hex_val c =
     (if 0x30 \<le> c \<and> c \<le> 0x39 then Some (unat c - 0x30)
      else if 0x41 \<le> c \<and> c \<le> 0x46 then Some (unat c - 0x37)
      else if 0x61 \<le> c \<and> c \<le> 0x66 then Some (unat c - 0x57)
      else None)"

definition escape_char :: "code_unit \<Rightarrow> code_unit option" where
  "escape_char e =
     (if e = 0x22 then Some 0x22 else if e = 0x5C then Some 0x5C
      else if e = 0x2F then Some 0x2F else if e = 0x62 then Some 0x08
      else if e = 0x66 then Some 0x0C else if e = 0x6E then Some 0x0A
      else if e = 0x72 then Some 0x0D else if e = 0x74 then Some 0x09
      else None)"

definition unicode_escape :: "jstring \<Rightarrow> code_unit option" where
  "unicode_escape hs =
     (case map hex_val hs of
        [Some a, Some b, Some c, Some d] \<Rightarrow> Some (of_nat (((a * 16 + b) * 16 + c) * 16 + d))
      | _ \<Rightarrow> None)"

text \<open>
  The body of a string token, after its opening quote: the decoded string and the text
  after the closing quote. Control characters, unknown escapes and a missing closing
  quote are syntax errors.
\<close>

fun lex_string :: "jstring \<Rightarrow> jstring \<Rightarrow> (jstring \<times> jstring) option" where
  "lex_string acc [] = None"
| "lex_string acc [c] = (if c = 0x22 then Some (rev acc, []) else None)"
| "lex_string acc (c # e # es) =
     (if c = 0x22 then Some (rev acc, e # es)
      else if c = 0x5C then
        (if e = 0x75 then
           (if length es < 4 then None
            else (case unicode_escape (take 4 es) of
                    None \<Rightarrow> None
                  | Some u \<Rightarrow> lex_string (u # acc) (drop 4 es)))
         else (case escape_char e of
                 None \<Rightarrow> None
               | Some d \<Rightarrow> lex_string (d # acc) es))
      else if c < 0x20 then None
      else lex_string (c # acc) (e # es))"

text \<open>
  A number token: \<open>-? (0 | [1-9][0-9]*) (. [0-9]+)? ([eE] [+-]? [0-9]+)?\<close>. The lexer
  hands over the longest run of the characters a number is made of; a run that is not
  one number is a syntax error (two values would stand side by side).
\<close>

definition number_char :: "code_unit \<Rightarrow> bool" where
  "number_char c \<longleftrightarrow>
     is_digit c \<or> c = 0x2D \<or> c = 0x2B \<or> c = 0x2E \<or> c = 0x65 \<or> c = 0x45"

definition digits_val :: "jstring \<Rightarrow> nat" where
  "digits_val ds = foldl (\<lambda>n c. 10 * n + (unat c - 0x30)) 0 ds"

definition scale10 :: "rat \<Rightarrow> int \<Rightarrow> rat" where
  "scale10 q e = (if 0 \<le> e then q * 10 ^ nat e else q / 10 ^ nat (- e))"

definition strip_sign :: "jstring \<Rightarrow> bool \<times> jstring" where
  "strip_sign s =
     (case s of
        [] \<Rightarrow> (False, s)
      | c # r \<Rightarrow> if c = 0x2D then (True, r) else if c = 0x2B then (False, r) else (False, s))"

definition number_value :: "jstring \<Rightarrow> rat option" where
  "number_value s =
     (let neg = (s \<noteq> [] \<and> hd s = 0x2D);
          s1 = (if neg then tl s else s);
          ip = takeWhile is_digit s1;
          s2 = dropWhile is_digit s1;
          has_frac = (s2 \<noteq> [] \<and> hd s2 = 0x2E);
          fp = (if has_frac then takeWhile is_digit (tl s2) else []);
          s3 = (if has_frac then dropWhile is_digit (tl s2) else s2);
          has_exp = (s3 \<noteq> [] \<and> (hd s3 = 0x65 \<or> hd s3 = 0x45));
          se = (if has_exp then strip_sign (tl s3) else (False, s3));
          ep = takeWhile is_digit (snd se);
          s4 = dropWhile is_digit (snd se);
          e = (if fst se then - int (digits_val ep) else int (digits_val ep)) - int (length fp);
          m = of_nat (digits_val (ip @ fp))
      in if ip = [] \<or> (1 < length ip \<and> hd ip = 0x30) \<or> (has_frac \<and> fp = []) \<or>
            (has_exp \<and> ep = []) \<or> s4 \<noteq> []
         then None
         else Some (scale10 (if neg then - m else m) e))"

lemma lex_string_shorter:
  "lex_string acc cs = Some (s, rest) \<Longrightarrow> length rest < length cs"
  by (induction acc cs rule: lex_string.induct)
     (auto split: if_splits option.splits)

function json_tokens :: "jstring \<Rightarrow> token list option" where
  "json_tokens [] = Some []"
| "json_tokens (c # cs) =
     (if json_ws c then json_tokens cs
      else if c = 0x7B then map_option (Cons LBrace) (json_tokens cs)
      else if c = 0x7D then map_option (Cons RBrace) (json_tokens cs)
      else if c = 0x5B then map_option (Cons LBracket) (json_tokens cs)
      else if c = 0x5D then map_option (Cons RBracket) (json_tokens cs)
      else if c = 0x3A then map_option (Cons Colon) (json_tokens cs)
      else if c = 0x2C then map_option (Cons Comma) (json_tokens cs)
      else if c = 0x22 then
        (case lex_string [] cs of
           None \<Rightarrow> None
         | Some (s, rest) \<Rightarrow> map_option (Cons (TStr s)) (json_tokens rest))
      else if prefix (js ''true'') (c # cs) then
        map_option (Cons TTrue) (json_tokens (drop 3 cs))
      else if prefix (js ''false'') (c # cs) then
        map_option (Cons TFalse) (json_tokens (drop 4 cs))
      else if prefix (js ''null'') (c # cs) then
        map_option (Cons TNull) (json_tokens (drop 3 cs))
      else if c = 0x2D \<or> is_digit c then
        (case number_value (c # takeWhile number_char cs) of
           None \<Rightarrow> None
         | Some q \<Rightarrow> map_option (Cons (TNum q)) (json_tokens (dropWhile number_char cs)))
      else None)"
  by pat_completeness auto
termination
proof (relation "measure length")
  fix c :: code_unit and cs x2 x y
  assume "lex_string [] cs = Some x2" "(x, y) = x2"
  then have "lex_string [] cs = Some (x, y)" by simp
  then have "length y < length cs" by (rule lex_string_shorter)
  then show "(y, c # cs) \<in> measure length" by simp
next
  fix c :: code_unit and cs
  have "length (dropWhile number_char cs) \<le> length cs" by (rule length_dropWhile_le)
  then show "(dropWhile number_char cs, c # cs) \<in> measure length" by simp
qed auto

text \<open>
  The grammar over tokens, as a pushdown machine: the stack holds the arrays and objects
  still open (an array with its elements so far, last first; an object with its members
  so far and the key whose value is being read).
\<close>

fun put :: "jstring \<Rightarrow> json \<Rightarrow> (jstring \<times> json) list \<Rightarrow> (jstring \<times> json) list" where
  "put k v [] = [(k, v)]"
| "put k v ((k', v') # ms) = (if k = k' then (k, v) # ms else (k', v') # put k v ms)"

datatype frame = InArr "json list" | InObj "(jstring \<times> json) list" jstring

datatype expect =
    Value
  | ValueOrClose
  | KeyOrClose
  | Key "(jstring \<times> json) list"
  | ColonAfter "(jstring \<times> json) list" jstring
  | Got json

fun begin_value :: "token \<Rightarrow> frame list \<Rightarrow> (expect \<times> frame list) option" where
  "begin_value LBracket st = Some (ValueOrClose, InArr [] # st)"
| "begin_value LBrace st = Some (KeyOrClose, st)"
| "begin_value (TStr s) st = Some (Got (JStr s), st)"
| "begin_value (TNum q) st = Some (Got (JNum q), st)"
| "begin_value TTrue st = Some (Got (JBool True), st)"
| "begin_value TFalse st = Some (Got (JBool False), st)"
| "begin_value TNull st = Some (Got JNull, st)"
| "begin_value _ st = None"

fun json_step :: "expect \<times> frame list \<Rightarrow> token \<Rightarrow> (expect \<times> frame list) option" where
  "json_step (Value, st) t = begin_value t st"
| "json_step (ValueOrClose, st) t =
     (if t = RBracket then
        (case st of InArr es # st' \<Rightarrow> Some (Got (JArr (rev es)), st') | _ \<Rightarrow> None)
      else begin_value t st)"
| "json_step (KeyOrClose, st) t =
     (case t of
        RBrace \<Rightarrow> Some (Got (JObj []), st)
      | TStr k \<Rightarrow> Some (ColonAfter [] k, st)
      | _ \<Rightarrow> None)"
| "json_step (Key ms, st) t =
     (case t of TStr k \<Rightarrow> Some (ColonAfter ms k, st) | _ \<Rightarrow> None)"
| "json_step (ColonAfter ms k, st) t =
     (if t = Colon then Some (Value, InObj ms k # st) else None)"
| "json_step (Got v, []) t = None"
| "json_step (Got v, InArr es # st) t =
     (case t of
        Comma \<Rightarrow> Some (Value, InArr (v # es) # st)
      | RBracket \<Rightarrow> Some (Got (JArr (rev (v # es))), st)
      | _ \<Rightarrow> None)"
| "json_step (Got v, InObj ms k # st) t =
     (case t of
        Comma \<Rightarrow> Some (Key (put k v ms), st)
      | RBrace \<Rightarrow> Some (Got (JObj (put k v ms)), st)
      | _ \<Rightarrow> None)"

fun json_run :: "expect \<times> frame list \<Rightarrow> token list \<Rightarrow> json option" where
  "json_run s [] = (case s of (Got v, []) \<Rightarrow> Some v | _ \<Rightarrow> None)"
| "json_run s (t # ts) =
     (case json_step s t of None \<Rightarrow> None | Some s' \<Rightarrow> json_run s' ts)"

text \<open>\<open>JSON.parse\<close>: \<open>None\<close> is the \<open>SyntaxError\<close> it throws.\<close>

definition JSON_parse :: "jstring \<Rightarrow> json option" where
  "JSON_parse s = (case json_tokens s of None \<Rightarrow> None | Some ts \<Rightarrow> json_run (Value, []) ts)"

section \<open>Values, truthiness and property reads\<close>

text \<open>
  A JavaScript value here is a JSON value or \<open>undefined\<close> (\<open>None\<close>). A number is falsy
  when the double nearest to it is zero, that is when its magnitude is at most \<open>2^-1075\<close>.
\<close>

type_synonym jsval = "json option"

datatype js_error =
    Error json    \<comment> \<open>\<open>new Error(v)\<close>: its message is \<open>v\<close>, as a string\<close>
  | SyntaxError   \<comment> \<open>thrown by \<open>JSON.parse\<close> and \<open>res.json()\<close>\<close>
  | TypeError     \<comment> \<open>a property read of \<open>undefined\<close> or \<open>null\<close>, a call of what is no function, a failed fetch\<close>

fun truthy :: "jsval \<Rightarrow> bool" where
  "truthy None = False"
| "truthy (Some JNull) = False"
| "truthy (Some (JBool b)) = b"
| "truthy (Some (JNum q)) = (1 < 2 ^ 1075 * \<bar>q\<bar>)"
| "truthy (Some (JStr s)) = (s \<noteq> [])"
| "truthy (Some (JArr xs)) = True"
| "truthy (Some (JObj ms)) = True"

text \<open>\<open>x || d\<close>\<close>

fun or_else :: "jsval \<Rightarrow> json \<Rightarrow> json" where
  "or_else None d = d"
| "or_else (Some v) d = (if truthy (Some v) then v else d)"

text \<open>
  \<open>x.k\<close>, for the property names this program reads (\<open>quotes\<close>, \<open>error\<close>, \<open>message\<close>,
  \<open>choices\<close>, \<open>content\<close>, \<open>candidates\<close>, \<open>parts\<close>, \<open>text\<close>, \<open>prompt\<close>,
  \<open>strictQuotesOnly\<close>), none of which a string, a number, a boolean or an array has and
  none of which an object inherits.
\<close>

fun field :: "json \<Rightarrow> jstring \<Rightarrow> jsval" where
  "field (JObj ms) k = map_of ms k"
| "field v k = None"

fun get_prop :: "jsval \<Rightarrow> jstring \<Rightarrow> js_error + jsval" where
  "get_prop None k = Inl TypeError"
| "get_prop (Some JNull) k = Inl TypeError"
| "get_prop (Some v) k = Inr (field v k)"

text \<open>\<open>x?.k\<close>\<close>

fun get_opt :: "jsval \<Rightarrow> jstring \<Rightarrow> js_error + jsval" where
  "get_opt None k = Inr None"
| "get_opt (Some JNull) k = Inr None"
| "get_opt (Some v) k = get_prop (Some v) k"

text \<open>\<open>x[0]\<close>: the first element of an array, the first code unit of a string, the property \<open>"0"\<close> of an object.\<close>

fun get_first :: "jsval \<Rightarrow> js_error + jsval" where
  "get_first None = Inl TypeError"
| "get_first (Some JNull) = Inl TypeError"
| "get_first (Some (JArr xs)) = Inr (case xs of [] \<Rightarrow> None | x # _ \<Rightarrow> Some x)"
| "get_first (Some (JStr s)) = Inr (case s of [] \<Rightarrow> None | c # _ \<Rightarrow> Some (JStr [c]))"
| "get_first (Some (JObj ms)) = Inr (map_of ms (js ''0''))"
| "get_first (Some v) = Inr None"

text \<open>Sequencing of steps that may throw.\<close>

fun and_then :: "'e + 'a \<Rightarrow> ('a \<Rightarrow> 'e + 'b) \<Rightarrow> 'e + 'b" where
  "and_then (Inl e) f = Inl e"
| "and_then (Inr x) f = f x"

section \<open>The provider adapter: \<open>callAI\<close>\<close>

datatype provider = openai | claude | gemini

record request =
  url :: jstring
  http_method :: jstring
  headers :: "(jstring \<times> jstring) list"
  body :: json  \<comment> \<open>the value handed to \<open>JSON.stringify\<close>\<close>

record response =
  ok :: bool
  payload :: jstring  \<comment> \<open>the body text, which \<open>res.json()\<close> parses\<close>

text \<open>The request \<open>callAI\<close> hands to \<open>fetch\<close>, one branch per provider.\<close>

fun callAI_request :: "provider \<Rightarrow> jstring \<Rightarrow> jstring \<Rightarrow> jstring \<Rightarrow> request" where
  "callAI_request openai key systemPrompt userMessage =
     \<lparr>url = js ''/openai/v1/chat/completions'',
      http_method = js ''POST'',
      headers = [(js ''Content-Type'', js ''application/json''),
                 (js ''Authorization'', js ''Bearer '' @ key)],
      body = JObj
        [(js ''model'', JStr (js ''gpt-4o'')),
         (js ''max_tokens'', JNum 4000),
         (js ''messages'', JArr
            [JObj [(js ''role'', JStr (js ''system'')), (js ''content'', JStr systemPrompt)],
             JObj [(js ''role'', JStr (js ''user'')), (js ''content'', JStr userMessage)]])]\<rparr>"
| "callAI_request claude key systemPrompt userMessage =
     \<lparr>url = js ''/claude/v1/messages'',
      http_method = js ''POST'',
      headers = [(js ''Content-Type'', js ''application/json''),
                 (js ''x-api-key'', key),
                 (js ''anthropic-version'', js ''2023-06-01''),
                 (js ''anthropic-dangerous-direct-browser-access'', js ''true'')],
      body = JObj
        [(js ''model'', JStr (js ''claude-sonnet-4-20250514'')),
         (js ''max_tokens'', JNum 4000),
         (js ''system'', JStr systemPrompt),
         (js ''messages'', JArr
            [JObj [(js ''role'', JStr (js ''user'')), (js ''content'', JStr userMessage)]])]\<rparr>"
| "callAI_request gemini key systemPrompt userMessage =
     \<lparr>url = js ''/gemini/v1beta/models/gemini-1.5-pro:generateContent?key='' @ key,
      http_method = js ''POST'',
      headers = [(js ''Content-Type'', js ''application/json'')],
      body = JObj
        [(js ''contents'', JArr
            [JObj [(js ''parts'', JArr
               [JObj [(js ''text'', JStr (systemPrompt @ js ''\<newline>\<newline>'' @ userMessage))]])]]),
         (js ''generationConfig'', JObj [(js ''maxOutputTokens'', JNum 4000)])]\<rparr>"

text \<open>
  The reply read from the parsed body: \<open>data.choices[0].message.content || ''\<close>,
  \<open>data.content[0].text || ''\<close>, \<open>data.candidates[0].content.parts[0].text || ''\<close>.
\<close>

fun reply_text :: "provider \<Rightarrow> json \<Rightarrow> js_error + json" where
  "reply_text openai data =
     and_then (get_prop (Some data) (js ''choices'')) (\<lambda>choices.
     and_then (get_first choices) (\<lambda>choice.
     and_then (get_prop choice (js ''message'')) (\<lambda>message.
     and_then (get_prop message (js ''content'')) (\<lambda>content.
     Inr (or_else content (JStr []))))))"
| "reply_text claude data =
     and_then (get_prop (Some data) (js ''content'')) (\<lambda>content.
     and_then (get_first content) (\<lambda>block.
     and_then (get_prop block (js ''text'')) (\<lambda>t.
     Inr (or_else t (JStr [])))))"
| "reply_text gemini data =
     and_then (get_prop (Some data) (js ''candidates'')) (\<lambda>candidates.
     and_then (get_first candidates) (\<lambda>candidate.
     and_then (get_prop candidate (js ''content'')) (\<lambda>content.
     and_then (get_prop content (js ''parts'')) (\<lambda>parts.
     and_then (get_first parts) (\<lambda>part.
     and_then (get_prop part (js ''text'')) (\<lambda>t.
     Inr (or_else t (JStr []))))))))"

fun fallback :: "provider \<Rightarrow> jstring" where
  "fallback openai = js ''OpenAI error''"
| "fallback claude = js ''Claude error''"
| "fallback gemini = js ''Gemini error''"

text \<open>
  What \<open>callAI\<close> does once \<open>fetch\<close> has settled (\<open>Inl\<close>: the fetch itself was
  rejected): \<open>const data = await res.json(); if (!res.ok) throw new
  Error(data.error?.message || '... error'); return ...\<close>. The result is the reply
  (\<open>Inr\<close>) or the exception thrown (\<open>Inl\<close>).
\<close>

definition callAI_settle :: "provider \<Rightarrow> js_error + response \<Rightarrow> js_error + json" where
  "callAI_settle p fetched =
     and_then fetched (\<lambda>res.
       case JSON_parse (payload res) of
         None \<Rightarrow> Inl SyntaxError
       | Some data \<Rightarrow>
           if \<not> ok res then
             and_then (get_prop (Some data) (js ''error'')) (\<lambda>err.
             and_then (get_opt err (js ''message'')) (\<lambda>m.
             Inl (Error (or_else m (JStr (fallback p))))))
           else reply_text p data)"

section \<open>The response parser\<close>

text \<open>
  The client (\<open>onQuery\<close>): \<open>fullText.match(/QUOTES_JSON:(\{"quotes":\[.*)/s)\<close> finds the
  leftmost \<open>QUOTES_JSON:{"quotes":[\<close>, its group running to the end of the text;
  \<open>.replace(/\]\}.*$/s, ']}')\<close> cuts the group after its first \<open>]}\<close>;
  \<open>JSON.parse(raw).quotes || []\<close> inside \<open>try\<close>/\<open>catch\<close>;
  \<open>fullText.replace(/QUOTES_JSON:.*$/s, '').trim()\<close> is the answer.
\<close>

definition cut_after_close :: "jstring \<Rightarrow> jstring" where
  "cut_after_close g =
     (case find_first quotes_close g of None \<Rightarrow> g | Some (b, a) \<Rightarrow> b @ quotes_close)"

definition decode_quotes :: "jstring \<Rightarrow> json" where
  "decode_quotes raw =
     (case JSON_parse raw of
        None \<Rightarrow> JArr []
      | Some v \<Rightarrow>
          (case get_prop (Some v) (js ''quotes'') of
             Inl e \<Rightarrow> JArr []
           | Inr q \<Rightarrow> or_else q (JArr [])))"

definition client_raw :: "jstring \<Rightarrow> jstring option" where
  "client_raw fullText =
     (case find_first (marker @ quotes_open) fullText of
        None \<Rightarrow> None
      | Some (b, rest) \<Rightarrow> Some (cut_after_close (quotes_open @ rest)))"

definition client_quotes :: "jstring \<Rightarrow> json" where
  "client_quotes fullText =
     (case client_raw fullText of None \<Rightarrow> JArr [] | Some raw \<Rightarrow> decode_quotes raw)"

definition client_answer :: "jstring \<Rightarrow> jstring" where
  "client_answer fullText =
     trim (case find_first marker fullText of None \<Rightarrow> fullText | Some (b, a) \<Rightarrow> b)"

text \<open>
  The relay (\<open>POST /api/query\<close>): \<open>fullText.match(/QUOTES_JSON:(\{"quotes":\[.*?\]\})/s)\<close>
  matches at the leftmost \<open>QUOTES_JSON:{"quotes":[\<close> when a \<open>]}\<close> follows it, the group
  ending with the first such \<open>]}\<close>, and not at all otherwise;
  \<open>fullText.replace(/QUOTES_JSON:\{.*?\}/s, '').trim()\<close> removes the leftmost
  \<open>QUOTES_JSON:{\<close> up to the first \<open>}\<close> after it, and nothing when no \<open>}\<close> follows.
\<close>

definition relay_raw :: "jstring \<Rightarrow> jstring option" where
  "relay_raw fullText =
     (case find_first (marker @ quotes_open) fullText of
        None \<Rightarrow> None
      | Some (b, rest) \<Rightarrow>
          (case find_first quotes_close rest of
             None \<Rightarrow> None
           | Some (inner, a) \<Rightarrow> Some (quotes_open @ inner @ quotes_close)))"

definition relay_quotes :: "jstring \<Rightarrow> json" where
  "relay_quotes fullText =
     (case relay_raw fullText of None \<Rightarrow> JArr [] | Some raw \<Rightarrow> decode_quotes raw)"

definition relay_answer :: "jstring \<Rightarrow> jstring" where
  "relay_answer fullText =
     trim (case find_first (marker @ js ''{'') fullText of
             None \<Rightarrow> fullText
           | Some (b, rest) \<Rightarrow>
               (case find_first (js ''}'') rest of
                  None \<Rightarrow> fullText
                | Some (inner, a) \<Rightarrow> b @ a))"

section \<open>Documents and the prompt builder\<close>

text \<open>
  The relay keeps \<open>{ id, name, text }\<close>; the client's \<open>Doc\<close> has \<open>size\<close> and
  \<open>uploadedAt\<close> as well.
\<close>

record corpus_doc =
  id_doc :: jstring
  name :: jstring
  text_doc :: jstring

record doc = corpus_doc +
  size_doc :: nat
  uploadedAt :: jstring

text \<open>\<open>Array.prototype.join\<close> on strings.\<close>

fun join :: "jstring \<Rightarrow> jstring list \<Rightarrow> jstring" where
  "join sep [] = []"
| "join sep [x] = x"
| "join sep (x # y # ys) = x @ sep @ join sep (y # ys)"

text \<open>\<open>docs.map(d => `--- ${d.name} ---\n${d.text.slice(0, 8000)}`).join('\n\n')\<close>\<close>

definition client_context :: "doc list \<Rightarrow> jstring" where
  "client_context ds =
     join (js ''\<newline>\<newline>'')
       (map (\<lambda>d. js ''--- '' @ name d @ js '' ---\<newline>'' @ take 8000 (text_doc d)) ds)"

text \<open>\<open>corpus.map(d => `--- ${d.name} ---\n${d.text.slice(0, 15000)}`).join('\n\n')\<close>\<close>

definition relay_context :: "corpus_doc list \<Rightarrow> jstring" where
  "relay_context ds =
     join (js ''\<newline>\<newline>'')
       (map (\<lambda>d. js ''--- '' @ name d @ js '' ---\<newline>'' @ take 15000 (text_doc d)) ds)"

text \<open>\<open>`Documents:\n\n${context}\n\nQuestion: ${prompt}`\<close>\<close>

definition user_message :: "jstring \<Rightarrow> jstring \<Rightarrow> jstring" where
  "user_message context question =
     js ''Documents:\<newline>\<newline>'' @ context @ js ''\<newline>\<newline>Question: '' @ question"

definition client_system_prompt :: "bool \<Rightarrow> jstring" where
  \<open>client_system_prompt strict =
     (if strict then
        js ''You are a strict academic assistant. Answer ONLY with exact quotes from the documents.\<newline>Format:\<newline>[1] "exact quote" (document name, p. X)\<newline>[2] "exact quote" (document name, p. X)\<newline>[3] "exact quote" (document name, p. X)\<newline>\<newline>End with:\<newline>QUOTES_JSON:{"quotes":[{"id":"q1","quote":"text","source":"doc name","page":1,"score":0.95},{"id":"q2","quote":"text","source":"doc name","page":2,"score":0.90},{"id":"q3","quote":"text","source":"doc name","page":3,"score":0.85}]}\<newline>\<newline>Preserve Hebrew exactly. If no evidence: "Insufficient evidence."''
      else
        js ''You are an academic assistant. Answer using only the provided documents. Cite sources.\<newline>Preserve Hebrew exactly.\<newline>End with: QUOTES_JSON:{"quotes":[{"id":"q1","quote":"text","source":"doc name","page":1,"score":0.90}]}'')\<close>

definition relay_system_prompt :: "bool \<Rightarrow> jstring" where
  \<open>relay_system_prompt strict =
     (if strict then
        js ''You are a strict academic assistant. Answer ONLY with exact quotes from the documents below.\<newline>Format your response as:\<newline>[1] "exact quote from document" (source name, p. X)\<newline>[2] "exact quote from document" (source name, p. X)\<newline>[3] "exact quote from document" (source name, p. X)\<newline>\<newline>Then add this JSON block at the end:\<newline>QUOTES_JSON:{"quotes":[{"id":"q1","quote":"exact text","source":"name","page":1,"score":0.95},{"id":"q2","quote":"exact text","source":"name","page":2,"score":0.90},{"id":"q3","quote":"exact text","source":"name","page":3,"score":0.85}]}\<newline>\<newline>Preserve Hebrew text exactly as it appears. If no relevant evidence found, say: "Insufficient evidence."''
      else
        js ''You are an academic assistant. Answer using only the provided documents. Cite sources inline.\<newline>Then add: QUOTES_JSON:{"quotes":[{"id":"q1","quote":"text","source":"name","page":1,"score":0.90}]}\<newline>Preserve Hebrew text exactly.'')\<close>

section \<open>The session controller (\<open>App\<close>)\<close>

record state =
  provider :: provider
  apiKey :: jstring
  docs :: "doc list"
  pasteText :: jstring
  pasteName :: jstring
  prompt :: jstring
  answer :: jstring
  quotes :: json
  strictMode :: bool
  loading :: bool
  error :: jstring
  preferredQuote :: jstring

definition initial :: state where
  "initial =
     \<lparr>provider = openai, apiKey = [], docs = [], pasteText = [], pasteName = [],
      prompt = [], answer = [], quotes = JArr [], strictMode = True, loading = False,
      error = [], preferredQuote = []\<rparr>"

text \<open>
  \<open>addText\<close>; \<open>now\<close> is \<open>`${Date.now()}`\<close> and \<open>stamp\<close> is
  \<open>new Date().toLocaleString()\<close>.
\<close>

definition addText :: "jstring \<Rightarrow> jstring \<Rightarrow> state \<Rightarrow> state" where
  "addText now stamp st =
     (if trim (pasteText st) = [] then st
      else st\<lparr>docs := docs st @
                 [\<lparr>id_doc = now,
                   name = (if trim (pasteName st) = [] then js ''Document'' else trim (pasteName st)),
                   text_doc = pasteText st,
                   size_doc = length (pasteText st),
                   uploadedAt = stamp\<rparr>],
              pasteText := [], pasteName := []\<rparr>)"

definition clearAll :: "state \<Rightarrow> state" where
  "clearAll st = st\<lparr>docs := [], answer := [], quotes := JArr [], preferredQuote := []\<rparr>"

text \<open>
  \<open>onQuery\<close> up to its \<open>await\<close>: \<open>None\<close> when the guard returns at once (nothing is
  set, nothing is sent), else the state after the four resets and the request handed to
  \<open>fetch\<close>.
\<close>

definition onQuery_start :: "state \<Rightarrow> (state \<times> request) option" where
  "onQuery_start st =
     (if trim (prompt st) = [] \<or> docs st = [] \<or> trim (apiKey st) = [] then None
      else Some
        (st\<lparr>loading := True, error := [], answer := [], quotes := JArr []\<rparr>,
         callAI_request (provider st) (apiKey st) (client_system_prompt (strictMode st))
           (user_message (client_context (docs st)) (prompt st))))"

text \<open>
  The text of \<open>e.message\<close>: the string an \<open>Error\<close> was made from; for any other
  message value and for the exceptions of the runtime itself the text is the runtime's,
  \<open>rt\<close>.
\<close>

fun error_message :: "(js_error \<Rightarrow> jstring) \<Rightarrow> js_error \<Rightarrow> jstring" where
  "error_message rt (Error (JStr s)) = s"
| "error_message rt e = rt e"

text \<open>
  \<open>onQuery\<close> after its \<open>await\<close>, on the outcome of \<open>callAI\<close>. A reply that is no string
  has no \<open>match\<close> method: a \<open>TypeError\<close>, caught like the others.
\<close>

definition onQuery_settle :: "(js_error \<Rightarrow> jstring) \<Rightarrow> state \<Rightarrow> js_error + json \<Rightarrow> state" where
  "onQuery_settle rt st outcome =
     (case outcome of
        Inl e \<Rightarrow> st\<lparr>error := error_message rt e, loading := False\<rparr>
      | Inr (JStr fullText) \<Rightarrow>
          st\<lparr>answer := client_answer fullText, quotes := client_quotes fullText,
             loading := False\<rparr>
      | Inr v \<Rightarrow> st\<lparr>error := error_message rt TypeError, loading := False\<rparr>)"

text \<open>The whole handler, \<open>net\<close> being what \<open>fetch\<close> settles with for a request.\<close>

definition onQuery :: "(js_error \<Rightarrow> jstring) \<Rightarrow> (request \<Rightarrow> js_error + response) \<Rightarrow> state \<Rightarrow> state" where
  "onQuery rt net st =
     (case onQuery_start st of
        None \<Rightarrow> st
      | Some (st', req) \<Rightarrow> onQuery_settle rt st' (callAI_settle (provider st) (net req)))"

section \<open>The relay (\<open>POST /api/query\<close>)\<close>

text \<open>
  The relay's file as committed holds seven stray lines of prose between its constants;
  the handlers are modelled as they are written. What the handler does with a request:
  it responds (status and JSON body), or it hands a request to \<open>fetch\<close>, or an
  exception escapes it (\<open>prompt?.trim()\<close> on a prompt that is no string, outside the
  \<open>try\<close>).
\<close>

datatype relay_action = Respond nat json | Forward request | Unhandled js_error

definition OPENAI_API_KEY :: jstring where
  "OPENAI_API_KEY = []"

definition relay_request :: "corpus_doc list \<Rightarrow> bool \<Rightarrow> jstring \<Rightarrow> request" where
  "relay_request corpus strict question =
     \<lparr>url = js ''https://api.openai.com/v1/chat/completions'',
      http_method = js ''POST'',
      headers = [(js ''Content-Type'', js ''application/json''),
                 (js ''Authorization'', js ''Bearer '' @ OPENAI_API_KEY)],
      body = JObj
        [(js ''model'', JStr (js ''gpt-4o'')),
         (js ''max_tokens'', JNum 2000),
         (js ''messages'', JArr
            [JObj [(js ''role'', JStr (js ''system'')),
                   (js ''content'', JStr (relay_system_prompt strict))],
             JObj [(js ''role'', JStr (js ''user'')),
                   (js ''content'', JStr (user_message (relay_context corpus) question))]])]\<rparr>"

definition no_documents :: json where
  "no_documents =
     JObj [(js ''success'', JBool True),
           (js ''answer'', JStr (js ''No documents loaded. Please paste your text first.'')),
           (js ''quotes'', JArr [])]"

definition failure :: "jstring \<Rightarrow> json" where
  "failure m = JObj [(js ''success'', JBool False), (js ''error'', JStr m)]"

text \<open>
  \<open>const { prompt, strictQuotesOnly = true } = req.body ?? {}\<close>, the two guards, and the
  request of the \<open>fetch\<close>.
\<close>

definition relay_query :: "corpus_doc list \<Rightarrow> jsval \<Rightarrow> relay_action" where
  "relay_query corpus req_body =
     (let b = (case req_body of None \<Rightarrow> JObj [] | Some JNull \<Rightarrow> JObj [] | Some v \<Rightarrow> v);
          strict = (case field b (js ''strictQuotesOnly'') of
                      None \<Rightarrow> True
                    | Some v \<Rightarrow> truthy (Some v))
      in case field b (js ''prompt'') of
           None \<Rightarrow> Respond 400 (failure (js ''Prompt is required''))
         | Some JNull \<Rightarrow> Respond 400 (failure (js ''Prompt is required''))
         | Some (JStr p) \<Rightarrow>
             if trim p = [] then Respond 400 (failure (js ''Prompt is required''))
             else if corpus = [] then Respond 200 no_documents
             else Forward (relay_request corpus strict p)
         | Some v \<Rightarrow> Unhandled TypeError)"

text \<open>
  The handler after its \<open>await\<close>: lines 75 to 78 read the response as the client's
  \<open>openai\<close> branch does; every exception ends in the status 500.
\<close>

definition relay_settle :: "(js_error \<Rightarrow> jstring) \<Rightarrow> js_error + response \<Rightarrow> relay_action" where
  "relay_settle rt fetched =
     (case callAI_settle openai fetched of
        Inl e \<Rightarrow> Respond 500 (failure (error_message rt e))
      | Inr (JStr fullText) \<Rightarrow>
          Respond 200
            (JObj [(js ''success'', JBool True),
                   (js ''answer'', JStr (relay_answer fullText)),
                   (js ''quotes'', relay_quotes fullText)])
      | Inr v \<Rightarrow> Respond 500 (failure (error_message rt TypeError)))"

section \<open>Searching and trimming\<close>

text \<open>
  \<open>find_first\<close> is the search for the leftmost occurrence: it fails exactly when the
  pattern does not occur, it splits the text around an occurrence, and the pattern does
  not occur in the text before that occurrence.
\<close>

lemma find_first_None_iff: "find_first p s = None \<longleftrightarrow> \<not> sublist p s"
  by (induction s) (auto simp: sublist_Cons_right)

lemma find_first_SomeD: "find_first p s = Some (b, a) \<Longrightarrow> s = b @ p @ a"
proof (induction s arbitrary: b)
  case Nil
  then show ?case by (simp split: if_splits)
next
  case (Cons c cs)
  show ?case
  proof (cases "prefix p (c # cs)")
    case True
    with Cons.prems have "b = []" "a = drop (length p) (c # cs)" by simp_all
    moreover from True have "c # cs = p @ drop (length p) (c # cs)"
      by (metis append_eq_conv_conj prefixE)
    ultimately show ?thesis by simp
  next
    case False
    with Cons.prems obtain b' where "find_first p cs = Some (b', a)" "b = c # b'"
      by auto
    with Cons.IH show ?thesis by simp
  qed
qed

lemma find_first_before: "find_first p s = Some (b, a) \<Longrightarrow> p \<noteq> [] \<Longrightarrow> \<not> sublist p b"
proof (induction s arbitrary: b)
  case Nil
  then show ?case by (simp split: if_splits)
next
  case (Cons c cs)
  show ?case
  proof (cases "prefix p (c # cs)")
    case True
    with Cons.prems show ?thesis by simp
  next
    case False
    with Cons.prems obtain b' where b': "find_first p cs = Some (b', a)" "b = c # b'"
      by auto
    then have cs: "cs = b' @ p @ a" by (simp add: find_first_SomeD)
    have "\<not> prefix p (c # b')"
    proof
      assume "prefix p (c # b')"
      then have "prefix p ((c # b') @ p @ a)" by (rule prefix_prefix)
      with False cs show False by simp
    qed
    moreover have "\<not> sublist p b'" using Cons.IH b'(1) Cons.prems(2) by simp
    ultimately show ?thesis using b'(2) by (simp add: sublist_Cons_right)
  qed
qed

lemma find_first_least:
  "find_first p s = Some (b, a) \<Longrightarrow> s = u @ p @ v \<Longrightarrow> length b \<le> length u"
proof (induction s arbitrary: b u)
  case Nil
  then show ?case by (simp split: if_splits)
next
  case (Cons c cs)
  show ?case
  proof (cases "prefix p (c # cs)")
    case True
    with Cons.prems(1) show ?thesis by simp
  next
    case False
    with Cons.prems(1) obtain b' where b': "find_first p cs = Some (b', a)" "b = c # b'"
      by auto
    from False Cons.prems(2) have "u \<noteq> []" by auto
    then obtain u' where u': "u = c # u'" "cs = u' @ p @ v"
      using Cons.prems(2) by (cases u) auto
    from Cons.IH [OF b'(1) u'(2)] b'(2) u'(1) show ?thesis by simp
  qed
qed

lemma find_first_border_free:
  assumes "p \<noteq> []" "hd p \<notin> set (tl p)" "\<not> sublist p u"
  shows "find_first p (u @ p @ t) = Some (u, t)"
  using assms(3)
proof (induction u)
  case Nil
  then show ?case using assms(1) by (cases p) simp_all
next
  case (Cons c u)
  have np: "\<not> prefix p (c # u @ p @ t)"
  proof
    assume pr: "prefix p (c # u @ p @ t)"
    have "\<not> prefix p (c # u)" using Cons.prems by (auto simp: sublist_Cons_right)
    with pr have "prefix (c # u) p \<and> c # u \<noteq> p"
      by (metis append_Cons prefix_order.dual_order.refl prefix_same_cases prefix_def)
    then obtain m where m: "p = (c # u) @ m" "m \<noteq> []"
      by (auto simp: prefix_def)
    with pr have "prefix m (p @ t)" by simp
    with m(2) assms(1) have "hd m = hd p"
      by (cases m; cases p) (auto simp: prefix_def)
    moreover from m have "hd m \<in> set (tl p)" by (cases m) auto
    ultimately show False using assms(2) by simp
  qed
  from Cons.prems have "\<not> sublist p u" by (auto simp: sublist_Cons_right)
  with Cons.IH have "find_first p (u @ p @ t) = Some (u, t)" by simp
  with np show ?case by simp
qed

lemma trim_sublist: "sublist (trim s) s"
proof -
  have "sublist (rev (dropWhile is_space (rev (dropWhile is_space s)))) (dropWhile is_space s)"
    by (simp add: sublist_rev_left)
  then show ?thesis
    unfolding trim_def by (meson sublist_dropWhile sublist_order.order_trans)
qed

lemma trim_no_leading: "dropWhile is_space (trim s) = trim s"
proof -
  define t where "t = dropWhile is_space s"
  define u where "u = rev (dropWhile is_space (rev t))"
  have t: "t = [] \<or> \<not> is_space (hd t)"
    unfolding t_def using hd_dropWhile by blast
  have "rev t = takeWhile is_space (rev t) @ dropWhile is_space (rev t)" by simp
  then have "t = u @ rev (takeWhile is_space (rev t))"
    unfolding u_def by (metis rev_append rev_rev_ident)
  then have "u = [] \<or> hd u = hd t" by (cases u) (auto, metis list.sel(1) append_Cons)
  moreover have "t = [] \<Longrightarrow> u = []" by (simp add: u_def)
  ultimately have "u = [] \<or> \<not> is_space (hd u)" using t by auto
  then have "dropWhile is_space u = u" by (simp add: dropWhile_eq_self_iff)
  then show ?thesis by (simp add: trim_def u_def t_def)
qed

lemma trim_idem: "trim (trim s) = trim s"
proof -
  have "trim (trim s) = rev (dropWhile is_space (rev (trim s)))"
    by (simp add: trim_def[of "trim s"] trim_no_leading)
  also have "\<dots> = trim s" by (simp add: trim_def)
  finally show ?thesis .
qed

section \<open>The marker and the two parsers\<close>

lemma marker_nonempty: "marker \<noteq> []"
  by (simp add: marker_def js_def)

lemma marker_border_free: "hd marker \<notin> set (tl marker)"
  by (simp add: marker_def js_def)

lemma marker_open_border_free: "hd (marker @ quotes_open) \<notin> set (tl (marker @ quotes_open))"
  by (simp add: marker_def quotes_open_def js_def)

lemma sublist_marker_longer: "sublist (marker @ x) s \<Longrightarrow> sublist marker s"
  by (meson sublist_append_rightI sublist_order.order_trans)

lemma find_first_longer_None: "\<not> sublist marker s \<Longrightarrow> find_first (marker @ x) s = None"
  using find_first_None_iff sublist_marker_longer by blast

lemma client_answer_no_marker: "\<not> sublist marker s \<Longrightarrow> client_answer s = trim s"
  by (simp add: client_answer_def find_first_None_iff[THEN iffD2])

lemma client_quotes_no_marker: "\<not> sublist marker s \<Longrightarrow> client_quotes s = JArr []"
  by (simp add: client_quotes_def client_raw_def find_first_longer_None)

lemma relay_answer_no_marker: "\<not> sublist marker s \<Longrightarrow> relay_answer s = trim s"
  by (simp add: relay_answer_def find_first_longer_None)

lemma relay_quotes_no_marker: "\<not> sublist marker s \<Longrightarrow> relay_quotes s = JArr []"
  by (simp add: relay_quotes_def relay_raw_def find_first_longer_None)

lemma client_answer_at_marker:
  "\<not> sublist marker b \<Longrightarrow> client_answer (b @ marker @ a) = trim b"
  by (simp add: client_answer_def find_first_border_free marker_nonempty marker_border_free)

lemma client_answer_marker_free: "\<not> sublist marker (client_answer s)"
proof -
  have "\<not> sublist marker (case find_first marker s of None \<Rightarrow> s | Some (b, a) \<Rightarrow> b)"
    by (auto split: option.splits simp: find_first_None_iff[symmetric] marker_nonempty
          dest: find_first_before)
  then show ?thesis
    unfolding client_answer_def by (meson trim_sublist sublist_order.order_trans)
qed

lemma client_parse_idempotent:
  "client_answer (client_answer s) = client_answer s \<and> client_quotes (client_answer s) = JArr []"
proof -
  have free: "\<not> sublist marker (client_answer s)" by (rule client_answer_marker_free)
  have "client_answer (client_answer s) = trim (client_answer s)"
    using free by (rule client_answer_no_marker)
  also have "\<dots> = client_answer s" by (simp add: client_answer_def trim_idem)
  finally show ?thesis using free by (simp add: client_quotes_no_marker)
qed

text \<open>
  C1, on the spec's example reply. The relay's \<open>replace(/QUOTES_JSON:\{.*?\}/s, '')\<close> ends
  at the first \<open>}\<close>, the end of the first quote object, and leaves the rest of the trailer
  in the answer; the client cuts at the marker (\<open>client_answer_at_marker\<close>,
  \<open>client_answer_no_marker\<close>).
\<close>

theorem relay_answer_keeps_trailer_rest:
  \<open>relay_answer (js ''[1] "Hello world" (A, p. 1)\<newline>QUOTES_JSON:{"quotes":[{"id":"q1","quote":"Hello world","source":"A","page":1,"score":0.9}]}'')
     = js ''[1] "Hello world" (A, p. 1)\<newline>]}'' \<and>
   client_answer (js ''[1] "Hello world" (A, p. 1)\<newline>QUOTES_JSON:{"quotes":[{"id":"q1","quote":"Hello world","source":"A","page":1,"score":0.9}]}'')
     = js ''[1] "Hello world" (A, p. 1)''\<close>
  by (simp add: relay_answer_def client_answer_def marker_def js_def trim_def is_space_def)

text \<open>
  C4: a reply without the marker gives no quotes and the trimmed reply as the answer, in
  the client and in the relay.
\<close>

theorem parse_without_marker:
  assumes "\<not> sublist marker fullText"
  shows "client_quotes fullText = JArr [] \<and> client_answer fullText = trim fullText \<and>
         relay_quotes fullText = JArr [] \<and> relay_answer fullText = trim fullText"
  using assms
  by (simp add: client_quotes_no_marker client_answer_no_marker relay_quotes_no_marker
        relay_answer_no_marker)

theorem parse_without_marker_witness:
  "\<not> sublist marker (js '' Insufficient evidence. '') \<and>
   client_quotes (js '' Insufficient evidence. '') = JArr [] \<and>
   client_answer (js '' Insufficient evidence. '') = js ''Insufficient evidence.'' \<and>
   relay_quotes (js '' Insufficient evidence. '') = JArr [] \<and>
   relay_answer (js '' Insufficient evidence. '') = js ''Insufficient evidence.''"
proof -
  have "find_first marker (js '' Insufficient evidence. '') = None"
    by (simp add: marker_def js_def)
  then have h: "\<not> sublist marker (js '' Insufficient evidence. '')"
    by (simp add: find_first_None_iff)
  have "trim (js '' Insufficient evidence. '') = js ''Insufficient evidence.''"
    by (simp add: trim_def js_def is_space_def)
  with h parse_without_marker [OF h] show ?thesis by simp
qed

text \<open>
  C5, at a reply that writes the marker twice. The relay removes only the first
  \<open>QUOTES_JSON:{\<close> up to the next \<open>}\<close>, so its answer still holds the trailer: parsed
  again, the answer changes and the quotes are not empty. The client is idempotent
  (\<open>client_parse_idempotent\<close>).
\<close>

theorem relay_parse_not_idempotent:
  \<open>relay_answer (js ''See QUOTES_JSON:{...} QUOTES_JSON:{"quotes":[{"id":"q1"}]}'')
     = js ''See  QUOTES_JSON:{"quotes":[{"id":"q1"}]}'' \<and>
   relay_answer (js ''See  QUOTES_JSON:{"quotes":[{"id":"q1"}]}'') = js ''See  ]}'' \<and>
   relay_quotes (js ''See  QUOTES_JSON:{"quotes":[{"id":"q1"}]}'')
     = JArr [JObj [(js ''id'', JStr (js ''q1''))]]\<close>
  by code_simp

section \<open>A trailer that follows the marker\<close>

lemma find_first_close_after_open:
  "find_first quotes_close (quotes_open @ r) =
     map_option (\<lambda>(b, a). (quotes_open @ b, a)) (find_first quotes_close r)"
  by (cases "find_first quotes_close r")
     (auto simp: quotes_open_def quotes_close_def js_def)

lemma cut_after_close_open:
  "cut_after_close (quotes_open @ r) = quotes_open @ cut_after_close r"
  by (auto simp: cut_after_close_def find_first_close_after_open split: option.splits)

lemma marker_open_nonempty: "marker @ quotes_open \<noteq> []"
  by (simp add: marker_nonempty)

lemma find_first_marker_open:
  "\<not> sublist (marker @ quotes_open) b \<Longrightarrow>
   find_first (marker @ quotes_open) (b @ marker @ quotes_open @ r) = Some (b, r)"
  using find_first_border_free [OF marker_open_nonempty marker_open_border_free, of b r]
  by simp

lemma client_raw_at_marker:
  "\<not> sublist (marker @ quotes_open) b \<Longrightarrow>
   client_raw (b @ marker @ quotes_open @ r) = Some (cut_after_close (quotes_open @ r))"
  by (simp add: client_raw_def find_first_marker_open)

lemma relay_raw_at_marker:
  "relay_raw (b @ marker @ quotes_open @ r) =
     (if sublist quotes_close r then Some (cut_after_close (quotes_open @ r)) else None)"
  if "\<not> sublist (marker @ quotes_open) b"
proof (cases "find_first quotes_close r")
  case None
  moreover from None have "\<not> sublist quotes_close r" by (simp add: find_first_None_iff)
  ultimately show ?thesis
    using that by (simp add: relay_raw_def find_first_marker_open)
next
  case (Some found)
  then have "sublist quotes_close r"
    using find_first_None_iff [of quotes_close r] by simp
  with Some show ?thesis
    using that
    by (cases found)
       (simp add: relay_raw_def find_first_marker_open cut_after_close_def
          find_first_close_after_open)
qed

lemma decode_quotes_array:
  "JSON_parse raw = Some (JObj ms) \<Longrightarrow> map_of ms (js ''quotes'') = Some (JArr qs) \<Longrightarrow>
   decode_quotes raw = JArr qs"
  by (simp add: decode_quotes_def)

lemma decode_quotes_invalid: "JSON_parse raw = None \<Longrightarrow> decode_quotes raw = JArr []"
  by (simp add: decode_quotes_def)

text \<open>
  C2, as amended. The reply is \<open>p + 'QUOTES_JSON:' + '{"quotes":[' + r\<close> and \<open>p\<close> does not
  contain the marker. The text handed to \<open>JSON.parse\<close> is the trailer cut after its first
  \<open>]}\<close> (all of it when it has none): when that text is a JSON object whose \<open>quotes\<close> is an
  array, the client's answer is \<open>p\<close> trimmed and its quotes are that array, in order; the
  relay's quotes are the same array when the trailer contains \<open>]}\<close>.
\<close>

theorem parse_marker_then_json:
  assumes "\<not> sublist marker p"
    and "JSON_parse (cut_after_close (quotes_open @ r)) = Some (JObj ms)"
    and "map_of ms (js ''quotes'') = Some (JArr qs)"
  shows "client_answer (p @ marker @ quotes_open @ r) = trim p \<and>
         client_quotes (p @ marker @ quotes_open @ r) = JArr qs \<and>
         (sublist quotes_close r \<longrightarrow> relay_quotes (p @ marker @ quotes_open @ r) = JArr qs)"
proof -
  from assms(1) have free: "\<not> sublist (marker @ quotes_open) p"
    using sublist_marker_longer by blast
  have "client_answer (p @ marker @ quotes_open @ r) = trim p"
    using assms(1) by (rule client_answer_at_marker)
  moreover have "client_quotes (p @ marker @ quotes_open @ r) = JArr qs"
    using assms(2,3) by (simp add: client_quotes_def client_raw_at_marker [OF free] decode_quotes_array)
  moreover have "sublist quotes_close r \<longrightarrow> relay_quotes (p @ marker @ quotes_open @ r) = JArr qs"
    using assms(2,3) by (simp add: relay_quotes_def relay_raw_at_marker [OF free] decode_quotes_array)
  ultimately show ?thesis by simp
qed

theorem parse_marker_then_json_witness:
  \<open>client_answer (js ''[1] "Hello world" (A, p. 1)\<newline>QUOTES_JSON:{"quotes":[{"id":"q1","quote":"Hello world","source":"A","page":1,"score":0.9}]}'')
     = js ''[1] "Hello world" (A, p. 1)'' \<and>
   client_quotes (js ''[1] "Hello world" (A, p. 1)\<newline>QUOTES_JSON:{"quotes":[{"id":"q1","quote":"Hello world","source":"A","page":1,"score":0.9}]}'')
     = JArr [JObj [(js ''id'', JStr (js ''q1'')), (js ''quote'', JStr (js ''Hello world'')),
                   (js ''source'', JStr (js ''A'')), (js ''page'', JNum 1), (js ''score'', JNum (9 / 10))]] \<and>
   relay_quotes (js ''[1] "Hello world" (A, p. 1)\<newline>QUOTES_JSON:{"quotes":[{"id":"q1","quote":"Hello world","source":"A","page":1,"score":0.9}]}'')
     = JArr [JObj [(js ''id'', JStr (js ''q1'')), (js ''quote'', JStr (js ''Hello world'')),
                   (js ''source'', JStr (js ''A'')), (js ''page'', JNum 1), (js ''score'', JNum (9 / 10))]]\<close>
proof -
  define p where \<open>p = js ''[1] "Hello world" (A, p. 1)\<newline>''\<close>
  define r where \<open>r = js ''{"id":"q1","quote":"Hello world","source":"A","page":1,"score":0.9}]}''\<close>
  define qs where \<open>qs = [JObj [(js ''id'', JStr (js ''q1'')), (js ''quote'', JStr (js ''Hello world'')),
                   (js ''source'', JStr (js ''A'')), (js ''page'', JNum 1), (js ''score'', JNum (9 / 10))]]\<close>
  have "find_first marker p = None" by (simp add: p_def marker_def js_def)
  then have h1: "\<not> sublist marker p" by (simp add: find_first_None_iff)
  have h2: "JSON_parse (cut_after_close (quotes_open @ r)) = Some (JObj [(js ''quotes'', JArr qs)])"
    unfolding r_def qs_def by code_simp
  have h3: "map_of [(js ''quotes'', JArr qs)] (js ''quotes'') = Some (JArr qs)" by simp
  have "find_first quotes_close r \<noteq> None" by (simp add: r_def quotes_close_def js_def)
  then have h4: "sublist quotes_close r" by (simp add: find_first_None_iff)
  have whole: \<open>p @ marker @ quotes_open @ r = js ''[1] "Hello world" (A, p. 1)\<newline>QUOTES_JSON:{"quotes":[{"id":"q1","quote":"Hello world","source":"A","page":1,"score":0.9}]}''\<close>
    by (simp add: p_def r_def marker_def quotes_open_def js_def)
  have tp: \<open>trim p = js ''[1] "Hello world" (A, p. 1)''\<close>
    by (simp add: p_def trim_def js_def is_space_def)
  from parse_marker_then_json [OF h1 h2 h3] h4 show ?thesis
    unfolding whole tp qs_def by simp
qed

text \<open>
  C2 as stated fails: the trailer below is a valid JSON object \<open>{"quotes":[...]}\<close> with one
  quote, whose text contains \<open>]}\<close>; both parsers cut the trailer there, the cut text does
  not parse, and the quotes come out empty.
\<close>

theorem valid_json_quotes_lost_counterexample:
  \<open>JSON_parse (js ''{"quotes":[{"id":"q1","quote":"x]}y"}]}'')
     = Some (JObj [(js ''quotes'', JArr [JObj [(js ''id'', JStr (js ''q1'')), (js ''quote'', JStr (js ''x]}y''))]])]) \<and>
   client_quotes (js ''A QUOTES_JSON:{"quotes":[{"id":"q1","quote":"x]}y"}]}'') = JArr [] \<and>
   relay_quotes (js ''A QUOTES_JSON:{"quotes":[{"id":"q1","quote":"x]}y"}]}'') = JArr []\<close>
  by code_simp

section \<open>The context string\<close>

text \<open>
  The block of one document as the spec words it: the delimiter line \<open>--- {name} ---\<close>,
  then the text cut to the cap.
\<close>

definition labelled_block :: "nat \<Rightarrow> jstring \<Rightarrow> jstring \<Rightarrow> jstring" where
  "labelled_block cap nm txt = js ''--- '' @ nm @ js '' ---\<newline>'' @ take cap txt"

lemma join_Cons:
  "join sep (x # xs) = x @ concat (map (\<lambda>y. sep @ y) xs)"
  by (induction xs arbitrary: x) simp_all

text \<open>Documents enter the store at its end, so the sequence order is the order of insertion.\<close>

lemma addText_appends:
  "trim (pasteText st) \<noteq> [] \<Longrightarrow>
   \<exists>d. docs (addText now stamp st) = docs st @ [d] \<and> text_doc d = pasteText st"
  by (simp add: addText_def)

text \<open>
  C6: the context of a non-empty document sequence is the first document's block followed,
  for every further document in sequence order, by a blank line and that document's
  block; every document has its block, none is moved, merged or left out. The cap is
  8000 code units in the client and 15000 in the relay.
\<close>

theorem context_blocks_in_order:
  "client_context (d # ds) =
     labelled_block 8000 (name d) (text_doc d) @
     concat (map (\<lambda>e. js ''\<newline>\<newline>'' @ labelled_block 8000 (name e) (text_doc e)) ds) \<and>
   relay_context (c # cs) =
     labelled_block 15000 (name c) (text_doc c) @
     concat (map (\<lambda>e. js ''\<newline>\<newline>'' @ labelled_block 15000 (name e) (text_doc e)) cs)"
  by (simp add: client_context_def relay_context_def join_Cons labelled_block_def comp_def)

section \<open>The session controller\<close>

text \<open>
  C10: \<open>clearAll\<close> empties the documents, the answer, the quotes and the preferred quote,
  and leaves every other field of the session as it was.
\<close>

theorem clearAll_frame:
  "docs (clearAll st) = [] \<and> answer (clearAll st) = [] \<and> quotes (clearAll st) = JArr [] \<and>
   preferredQuote (clearAll st) = [] \<and>
   prompt (clearAll st) = prompt st \<and> apiKey (clearAll st) = apiKey st \<and>
   provider (clearAll st) = provider st \<and> strictMode (clearAll st) = strictMode st \<and>
   error (clearAll st) = error st \<and> loading (clearAll st) = loading st \<and>
   pasteText (clearAll st) = pasteText st \<and> pasteName (clearAll st) = pasteName st"
  by (simp add: clearAll_def)

lemma relay_query_empty_corpus:
  "relay_query [] posted =
     (case field (case posted of None \<Rightarrow> JObj [] | Some JNull \<Rightarrow> JObj [] | Some v \<Rightarrow> v) (js ''prompt'') of
        None \<Rightarrow> Respond 400 (failure (js ''Prompt is required''))
      | Some JNull \<Rightarrow> Respond 400 (failure (js ''Prompt is required''))
      | Some (JStr p) \<Rightarrow>
          if trim p = [] then Respond 400 (failure (js ''Prompt is required''))
          else Respond 200 no_documents
      | Some v \<Rightarrow> Unhandled TypeError)"
  by (simp add: relay_query_def Let_def split: option.splits json.splits)

text \<open>
  C7, as amended. In the client a blank prompt, an empty document list or a blank key
  makes \<open>onQuery\<close> return at once: no request, no change of state; so does a query
  after \<open>clearAll\<close>. In the relay a query on an empty corpus never reaches the provider;
  it is answered with the fixed no-documents response when its prompt is a non-blank
  string, and with the status 400 when its prompt is blank or missing.
\<close>

theorem guards_send_nothing:
  "(trim (prompt st) = [] \<or> docs st = [] \<or> trim (apiKey st) = [] \<longrightarrow>
      onQuery_start st = None \<and> onQuery rt net st = st) \<and>
   onQuery_start (clearAll st) = None \<and>
   (\<forall>req. relay_query [] posted \<noteq> Forward req) \<and>
   (\<forall>ms p. posted = Some (JObj ms) \<and> map_of ms (js ''prompt'') = Some (JStr p) \<and> trim p \<noteq> [] \<longrightarrow>
      relay_query [] posted = Respond 200 no_documents) \<and>
   (\<forall>ms p. posted = Some (JObj ms) \<and> map_of ms (js ''prompt'') = Some (JStr p) \<and> trim p = [] \<longrightarrow>
      relay_query [] posted = Respond 400 (failure (js ''Prompt is required''))) \<and>
   (\<forall>ms. posted = Some (JObj ms) \<and> map_of ms (js ''prompt'') = None \<longrightarrow>
      relay_query [] posted = Respond 400 (failure (js ''Prompt is required'')))"
proof -
  have a: "trim (prompt st) = [] \<or> docs st = [] \<or> trim (apiKey st) = [] \<longrightarrow>
      onQuery_start st = None \<and> onQuery rt net st = st"
    by (simp add: onQuery_start_def onQuery_def)
  have b: "onQuery_start (clearAll st) = None"
    by (simp add: onQuery_start_def clearAll_def)
  have c: "\<forall>req. relay_query [] posted \<noteq> Forward req"
    by (simp add: relay_query_empty_corpus split: option.splits json.splits)
  have d: "\<forall>ms p. posted = Some (JObj ms) \<and> map_of ms (js ''prompt'') = Some (JStr p) \<and> trim p \<noteq> [] \<longrightarrow>
      relay_query [] posted = Respond 200 no_documents"
    by (simp add: relay_query_empty_corpus)
  have e: "\<forall>ms p. posted = Some (JObj ms) \<and> map_of ms (js ''prompt'') = Some (JStr p) \<and> trim p = [] \<longrightarrow>
      relay_query [] posted = Respond 400 (failure (js ''Prompt is required''))"
    by (simp add: relay_query_empty_corpus)
  have f: "\<forall>ms. posted = Some (JObj ms) \<and> map_of ms (js ''prompt'') = None \<longrightarrow>
      relay_query [] posted = Respond 400 (failure (js ''Prompt is required''))"
    by (simp add: relay_query_empty_corpus)
  from a b c d e f show ?thesis by blast
qed

definition blank_prompt_state :: state where
  "blank_prompt_state =
     initial\<lparr>apiKey := js ''sk-test'', prompt := js ''   '',
             docs := [\<lparr>id_doc = js ''1'', name = js ''A'', text_doc = js ''Hello world'',
                       size_doc = 11, uploadedAt = js ''now''\<rparr>],
             answer := js ''old answer''\<rparr>"

theorem guards_send_nothing_witness:
  "onQuery_start blank_prompt_state = None \<and>
   answer (onQuery (\<lambda>e. []) (\<lambda>req. Inl TypeError) blank_prompt_state) = js ''old answer'' \<and>
   relay_query [] (Some (JObj [(js ''prompt'', JStr (js ''What is this?''))])) = Respond 200 no_documents \<and>
   relay_query [] (Some (JObj [(js ''prompt'', JStr (js ''  ''))]))
     = Respond 400 (failure (js ''Prompt is required'')) \<and>
   relay_query [] (Some (JObj [])) = Respond 400 (failure (js ''Prompt is required''))"
proof -
  have blank: "trim (prompt blank_prompt_state) = []"
    by (simp add: blank_prompt_state_def trim_def js_def is_space_def)
  have asked: "trim (js ''What is this?'') \<noteq> []"
    by (simp add: trim_def js_def is_space_def)
  have blank2: "trim (js ''  '') = []"
    by (simp add: trim_def js_def is_space_def)
  have old: "answer blank_prompt_state = js ''old answer''"
    by (simp add: blank_prompt_state_def)
  from guards_send_nothing [of blank_prompt_state "\<lambda>e. []" "\<lambda>req. Inl TypeError"
      "Some (JObj [(js ''prompt'', JStr (js ''What is this?''))])"] blank asked old
  have "onQuery_start blank_prompt_state = None \<and>
        answer (onQuery (\<lambda>e. []) (\<lambda>req. Inl TypeError) blank_prompt_state) = js ''old answer'' \<and>
        relay_query [] (Some (JObj [(js ''prompt'', JStr (js ''What is this?''))])) = Respond 200 no_documents"
    by simp
  moreover from guards_send_nothing [of blank_prompt_state "\<lambda>e. []" "\<lambda>req. Inl TypeError"
      "Some (JObj [(js ''prompt'', JStr (js ''  ''))])"] blank2
  have "relay_query [] (Some (JObj [(js ''prompt'', JStr (js ''  ''))]))
     = Respond 400 (failure (js ''Prompt is required''))"
    by simp
  moreover from guards_send_nothing [of blank_prompt_state "\<lambda>e. []" "\<lambda>req. Inl TypeError"
      "Some (JObj [])"]
  have "relay_query [] (Some (JObj [])) = Respond 400 (failure (js ''Prompt is required''))"
    by simp
  ultimately show ?thesis by simp
qed

text \<open>
  C7 as stated fails in the relay: the prompt is checked before the corpus, so a query
  with a blank prompt and an empty corpus is answered 400, not with the fixed response.
\<close>

theorem relay_blank_prompt_counterexample:
  "relay_query [] (Some (JObj [(js ''prompt'', JStr (js ''  ''))]))
     = Respond 400 (failure (js ''Prompt is required'')) \<and>
   relay_query [] (Some (JObj [(js ''prompt'', JStr (js ''  ''))])) \<noteq> Respond 200 no_documents"
proof -
  have "trim (js ''  '') = []"
    by (simp add: trim_def js_def is_space_def)
  then show ?thesis by (simp add: relay_query_empty_corpus)
qed

section \<open>Provider failures\<close>

text \<open>The provider's own message, \<open>error.message\<close> of the parsed body, as the spec words it.\<close>

definition provider_message :: "json \<Rightarrow> jsval" where
  "provider_message data =
     (case field data (js ''error'') of None \<Rightarrow> None | Some e \<Rightarrow> field e (js ''message''))"

lemma get_prop_defined: "v \<noteq> JNull \<Longrightarrow> get_prop (Some v) k = Inr (field v k)"
  by (cases v) simp_all

lemma get_opt_field: "get_opt x k = Inr (case x of None \<Rightarrow> None | Some e \<Rightarrow> field e k)"
proof (cases x)
  case None
  then show ?thesis by simp
next
  case (Some e)
  then show ?thesis by (cases e) simp_all
qed

lemma callAI_settle_not_ok:
  assumes "\<not> ok res"
  shows "callAI_settle p (Inr res) =
     (case JSON_parse (payload res) of
        None \<Rightarrow> Inl SyntaxError
      | Some JNull \<Rightarrow> Inl TypeError
      | Some data \<Rightarrow> Inl (Error (or_else (provider_message data) (JStr (fallback p)))))"
proof (cases "JSON_parse (payload res)")
  case None
  then show ?thesis by (simp add: callAI_settle_def)
next
  case (Some data)
  show ?thesis
  proof (cases "data = JNull")
    case True
    with Some assms show ?thesis by (simp add: callAI_settle_def)
  next
    case False
    with Some assms have "callAI_settle p (Inr res) =
        Inl (Error (or_else (provider_message data) (JStr (fallback p))))"
      by (simp add: callAI_settle_def get_prop_defined get_opt_field provider_message_def)
    with Some False show ?thesis by (cases data) simp_all
  qed
qed

text \<open>
  C9, as amended. On a response whose status is no success \<open>callAI\<close> never returns a
  reply. When the body is JSON, it throws an \<open>Error\<close> made from the body's
  \<open>error.message\<close> when that is truthy and from the provider's fallback string when it
  is not; when the body is not JSON, \<open>res.json()\<close> has already thrown its
  \<open>SyntaxError\<close>, and on the body \<open>null\<close> the read of \<open>data.error\<close> throws a
  \<open>TypeError\<close>. The relay answers 500 with the message of what was thrown.
\<close>

theorem callAI_failure:
  assumes "\<not> ok res"
  shows "(\<forall>v. callAI_settle p (Inr res) \<noteq> Inr v) \<and>
         (\<forall>data m. JSON_parse (payload res) = Some data \<and> provider_message data = Some m \<and>
            truthy (Some m) \<longrightarrow> callAI_settle p (Inr res) = Inl (Error m)) \<and>
         (\<forall>data. JSON_parse (payload res) = Some data \<and> data \<noteq> JNull \<and>
            \<not> truthy (provider_message data) \<longrightarrow>
            callAI_settle p (Inr res) = Inl (Error (JStr (fallback p)))) \<and>
         (JSON_parse (payload res) = None \<longrightarrow> callAI_settle p (Inr res) = Inl SyntaxError) \<and>
         (JSON_parse (payload res) = Some JNull \<longrightarrow> callAI_settle p (Inr res) = Inl TypeError) \<and>
         (\<exists>e. callAI_settle openai (Inr res) = Inl e \<and>
              relay_settle rt (Inr res) = Respond 500 (failure (error_message rt e)))"
proof -
  note eq = callAI_settle_not_ok [OF assms]
  have a: "\<forall>v. callAI_settle p (Inr res) \<noteq> Inr v"
    by (simp add: eq split: option.splits json.splits)
  have b: "\<forall>data m. JSON_parse (payload res) = Some data \<and> provider_message data = Some m \<and>
            truthy (Some m) \<longrightarrow> callAI_settle p (Inr res) = Inl (Error m)"
  proof (intro allI impI)
    fix data m
    assume h: "JSON_parse (payload res) = Some data \<and> provider_message data = Some m \<and>
               truthy (Some m)"
    then have "data \<noteq> JNull" by (auto simp: provider_message_def)
    with h show "callAI_settle p (Inr res) = Inl (Error m)"
      by (cases data) (simp_all add: eq)
  qed
  have c: "\<forall>data. JSON_parse (payload res) = Some data \<and> data \<noteq> JNull \<and>
            \<not> truthy (provider_message data) \<longrightarrow>
            callAI_settle p (Inr res) = Inl (Error (JStr (fallback p)))"
  proof (intro allI impI)
    fix data
    assume h: "JSON_parse (payload res) = Some data \<and> data \<noteq> JNull \<and>
               \<not> truthy (provider_message data)"
    then have "or_else (provider_message data) (JStr (fallback p)) = JStr (fallback p)"
      by (cases "provider_message data") simp_all
    with h show "callAI_settle p (Inr res) = Inl (Error (JStr (fallback p)))"
      by (cases data) (simp_all add: eq)
  qed
  have d: "JSON_parse (payload res) = None \<longrightarrow> callAI_settle p (Inr res) = Inl SyntaxError"
    by (simp add: eq)
  have e: "JSON_parse (payload res) = Some JNull \<longrightarrow> callAI_settle p (Inr res) = Inl TypeError"
    by (simp add: eq)
  have "\<forall>v. callAI_settle openai (Inr res) \<noteq> Inr v"
    by (simp add: callAI_settle_not_ok [OF assms] split: option.splits json.splits)
  then obtain x where x: "callAI_settle openai (Inr res) = Inl x"
    by (cases "callAI_settle openai (Inr res)") auto
  then have "relay_settle rt (Inr res) = Respond 500 (failure (error_message rt x))"
    by (simp add: relay_settle_def)
  with x a b c d e show ?thesis by blast
qed

theorem callAI_failure_witness:
  \<open>callAI_settle claude (Inr \<lparr>ok = False, payload = js ''{"type":"error","error":{"type":"authentication_error","message":"invalid x-api-key"}}''\<rparr>)
     = Inl (Error (JStr (js ''invalid x-api-key''))) \<and>
   callAI_settle gemini (Inr \<lparr>ok = False, payload = js ''{"error":{"code":429}}''\<rparr>)
     = Inl (Error (JStr (js ''Gemini error'')))\<close>
proof -
  let ?r1 = \<open>\<lparr>ok = False, payload = js ''{"type":"error","error":{"type":"authentication_error","message":"invalid x-api-key"}}''\<rparr>\<close>
  let ?d1 = \<open>JObj [(js ''type'', JStr (js ''error'')),
                   (js ''error'', JObj [(js ''type'', JStr (js ''authentication_error'')),
                                        (js ''message'', JStr (js ''invalid x-api-key''))])]\<close>
  let ?r2 = \<open>\<lparr>ok = False, payload = js ''{"error":{"code":429}}''\<rparr>\<close>
  let ?d2 = \<open>JObj [(js ''error'', JObj [(js ''code'', JNum 429)])]\<close>
  have p1: "JSON_parse (payload ?r1) = Some ?d1" by code_simp
  have p2: "JSON_parse (payload ?r2) = Some ?d2" by code_simp
  have m1: "provider_message ?d1 = Some (JStr (js ''invalid x-api-key''))"
    by (simp add: provider_message_def js_def)
  have m2: "provider_message ?d2 = None"
    by (simp add: provider_message_def js_def)
  have n1: "\<not> ok ?r1" and n2: "\<not> ok ?r2" by simp_all
  have t1: "truthy (Some (JStr (js ''invalid x-api-key'')))" by (simp add: js_def)
  from callAI_failure [OF n1, of claude] p1 m1 t1
  have "callAI_settle claude (Inr ?r1) = Inl (Error (JStr (js ''invalid x-api-key'')))"
    by blast
  moreover from callAI_failure [OF n2, of gemini] p2 m2
  have "callAI_settle gemini (Inr ?r2) = Inl (Error (JStr (js ''Gemini error'')))"
    by simp
  ultimately show ?thesis by simp
qed

text \<open>
  C9 as stated fails on a failure response whose body is not JSON (a gateway's HTML
  page): the error is the \<open>SyntaxError\<close> of \<open>res.json()\<close>, not the fallback string.
\<close>

theorem callAI_failure_not_json_counterexample:
  \<open>\<not> ok \<lparr>ok = False, payload = js ''<html>502 Bad Gateway</html>''\<rparr> \<and>
   callAI_settle openai (Inr \<lparr>ok = False, payload = js ''<html>502 Bad Gateway</html>''\<rparr>)
     = Inl SyntaxError \<and>
   callAI_settle openai (Inr \<lparr>ok = False, payload = js ''<html>502 Bad Gateway</html>''\<rparr>)
     \<noteq> Inl (Error (JStr (fallback openai)))\<close>
proof -
  have "JSON_parse (js ''<html>502 Bad Gateway</html>'') = None"
    by (simp add: JSON_parse_def js_def json_ws_def is_digit_def)
  then show ?thesis by (simp add: callAI_settle_def)
qed

section \<open>Parse failures\<close>

text \<open>
  C3, as amended. For every reply text the query does not fail: the error stays empty,
  loading ends, the answer is set (the relay responds 200). The quotes are empty
  whenever \<open>QUOTES_JSON:{"quotes":[\<close> does not occur in the reply, and whenever the text
  handed to \<open>JSON.parse\<close>, the trailer cut after its first \<open>]}\<close>, is not valid JSON.
\<close>

theorem trailer_failure_contained:
  "onQuery_settle rt st (Inr (JStr fullText)) =
     st\<lparr>answer := client_answer fullText, quotes := client_quotes fullText, loading := False\<rparr> \<and>
   (\<forall>st' req. onQuery_start st = Some (st', req) \<and>
       callAI_settle (provider st) (net req) = Inr (JStr fullText) \<longrightarrow>
       error (onQuery rt net st) = [] \<and> \<not> loading (onQuery rt net st) \<and>
       answer (onQuery rt net st) = client_answer fullText \<and>
       quotes (onQuery rt net st) = client_quotes fullText) \<and>
   (\<forall>fetched. callAI_settle openai fetched = Inr (JStr fullText) \<longrightarrow>
       relay_settle rt fetched =
         Respond 200 (JObj [(js ''success'', JBool True),
                            (js ''answer'', JStr (relay_answer fullText)),
                            (js ''quotes'', relay_quotes fullText)])) \<and>
   (\<not> sublist (marker @ quotes_open) fullText \<longrightarrow>
       client_quotes fullText = JArr [] \<and> relay_quotes fullText = JArr []) \<and>
   (\<forall>b r. fullText = b @ marker @ quotes_open @ r \<and> \<not> sublist (marker @ quotes_open) b \<and>
       JSON_parse (cut_after_close (quotes_open @ r)) = None \<longrightarrow>
       client_quotes fullText = JArr [] \<and> relay_quotes fullText = JArr [])"
proof -
  have a: "onQuery_settle rt st (Inr (JStr fullText)) =
     st\<lparr>answer := client_answer fullText, quotes := client_quotes fullText, loading := False\<rparr>"
    by (simp add: onQuery_settle_def)
  have b: "\<forall>st' req. onQuery_start st = Some (st', req) \<and>
       callAI_settle (provider st) (net req) = Inr (JStr fullText) \<longrightarrow>
       error (onQuery rt net st) = [] \<and> \<not> loading (onQuery rt net st) \<and>
       answer (onQuery rt net st) = client_answer fullText \<and>
       quotes (onQuery rt net st) = client_quotes fullText"
    by (auto simp: onQuery_def onQuery_settle_def onQuery_start_def split: if_splits)
  have c: "\<forall>fetched. callAI_settle openai fetched = Inr (JStr fullText) \<longrightarrow>
       relay_settle rt fetched =
         Respond 200 (JObj [(js ''success'', JBool True),
                            (js ''answer'', JStr (relay_answer fullText)),
                            (js ''quotes'', relay_quotes fullText)])"
    by (simp add: relay_settle_def)
  have d: "\<not> sublist (marker @ quotes_open) fullText \<longrightarrow>
       client_quotes fullText = JArr [] \<and> relay_quotes fullText = JArr []"
    by (simp add: client_quotes_def client_raw_def relay_quotes_def relay_raw_def
          find_first_None_iff [THEN iffD2])
  have e: "\<forall>b r. fullText = b @ marker @ quotes_open @ r \<and> \<not> sublist (marker @ quotes_open) b \<and>
       JSON_parse (cut_after_close (quotes_open @ r)) = None \<longrightarrow>
       client_quotes fullText = JArr [] \<and> relay_quotes fullText = JArr []"
    by (simp add: client_quotes_def relay_quotes_def client_raw_at_marker relay_raw_at_marker
          decode_quotes_invalid)
  from a b c d e show ?thesis by blast
qed

definition ready_state :: state where
  "ready_state =
     initial\<lparr>apiKey := js ''sk-test'', prompt := js ''What is this?'',
             docs := [\<lparr>id_doc = js ''1'', name = js ''A'', text_doc = js ''Hello world'',
                       size_doc = 11, uploadedAt = js ''now''\<rparr>]\<rparr>"

definition truncated_reply :: "request \<Rightarrow> js_error + response" where
  \<open>truncated_reply req =
     Inr \<lparr>ok = True, payload = js ''{"choices":[{"message":{"content":"A QUOTES_JSON:{"}}]}''\<rparr>\<close>

theorem trailer_failure_contained_witness:
  \<open>error (onQuery (\<lambda>e. js ''failed'') truncated_reply ready_state) = [] \<and>
   \<not> loading (onQuery (\<lambda>e. js ''failed'') truncated_reply ready_state) \<and>
   answer (onQuery (\<lambda>e. js ''failed'') truncated_reply ready_state) = js ''A'' \<and>
   quotes (onQuery (\<lambda>e. js ''failed'') truncated_reply ready_state) = JArr [] \<and>
   client_quotes (js ''A QUOTES_JSON:{"quotes":[{"id":"q1","quo'') = JArr [] \<and>
   relay_quotes (js ''A QUOTES_JSON:{"quotes":[{"id":"q1","quo'') = JArr []\<close>
proof -
  let ?rt = "\<lambda>e::js_error. js ''failed''"
  have "trim (prompt ready_state) \<noteq> [] \<and> docs ready_state \<noteq> [] \<and> trim (apiKey ready_state) \<noteq> []"
    by (simp add: ready_state_def initial_def trim_def js_def is_space_def)
  then obtain st' req where start: "onQuery_start ready_state = Some (st', req)"
    by (simp add: onQuery_start_def)
  have p: "provider ready_state = openai" by (simp add: ready_state_def initial_def)
  have settle: "callAI_settle openai (truncated_reply req) = Inr (JStr (js ''A QUOTES_JSON:{''))"
    unfolding truncated_reply_def by code_simp
  have "find_first (marker @ quotes_open) (js ''A QUOTES_JSON:{'') = None"
    by (simp add: marker_def quotes_open_def js_def)
  then have none: "\<not> sublist (marker @ quotes_open) (js ''A QUOTES_JSON:{'')"
    by (simp add: find_first_None_iff)
  have ans: "client_answer (js ''A QUOTES_JSON:{'') = js ''A''"
    by (simp add: client_answer_def marker_def js_def trim_def is_space_def)
  from trailer_failure_contained [of ?rt ready_state "js ''A QUOTES_JSON:{''" truncated_reply]
    start settle p none ans
  have run: "error (onQuery ?rt truncated_reply ready_state) = [] \<and>
        \<not> loading (onQuery ?rt truncated_reply ready_state) \<and>
        answer (onQuery ?rt truncated_reply ready_state) = js ''A'' \<and>
        quotes (onQuery ?rt truncated_reply ready_state) = JArr []"
    by simp
  have "find_first (marker @ quotes_open) (js ''A '') = None"
    by (simp add: marker_def quotes_open_def js_def)
  then have free: "\<not> sublist (marker @ quotes_open) (js ''A '')"
    by (simp add: find_first_None_iff)
  have bad: \<open>JSON_parse (cut_after_close (quotes_open @ js ''{"id":"q1","quo'')) = None\<close>
    by code_simp
  have whole: \<open>js ''A QUOTES_JSON:{"quotes":[{"id":"q1","quo'' = js ''A '' @ marker @ quotes_open @ js ''{"id":"q1","quo''\<close>
    by (simp add: marker_def quotes_open_def js_def)
  from trailer_failure_contained [of ?rt ready_state \<open>js ''A QUOTES_JSON:{"quotes":[{"id":"q1","quo''\<close> truncated_reply]
    whole free bad
  have \<open>client_quotes (js ''A QUOTES_JSON:{"quotes":[{"id":"q1","quo'') = JArr [] \<and>
        relay_quotes (js ''A QUOTES_JSON:{"quotes":[{"id":"q1","quo'') = JArr []\<close>
    by blast
  with run show ?thesis by simp
qed

text \<open>
  C3 as stated fails: the text after the marker below is not valid JSON (the object is
  followed by a sentence), yet both parsers cut it after \<open>]}\<close> and return its quote.
\<close>

theorem malformed_trailer_quotes_counterexample:
  \<open>find_first marker (js ''A QUOTES_JSON:{"quotes":[{"id":"q1"}]} Hope this helps!'')
     = Some (js ''A '', js ''{"quotes":[{"id":"q1"}]} Hope this helps!'') \<and>
   JSON_parse (js ''{"quotes":[{"id":"q1"}]} Hope this helps!'') = None \<and>
   client_quotes (js ''A QUOTES_JSON:{"quotes":[{"id":"q1"}]} Hope this helps!'')
     = JArr [JObj [(js ''id'', JStr (js ''q1''))]] \<and>
   relay_quotes (js ''A QUOTES_JSON:{"quotes":[{"id":"q1"}]} Hope this helps!'')
     = JArr [JObj [(js ''id'', JStr (js ''q1''))]]\<close>
  by code_simp

section \<open>The wire shapes\<close>

text \<open>The reply extraction paths of the spec's table.\<close>

datatype path_step = Prop jstring | First

fun follow :: "jsval \<Rightarrow> path_step list \<Rightarrow> js_error + jsval" where
  "follow v [] = Inr v"
| "follow v (Prop k # ps) = and_then (get_prop v k) (\<lambda>x. follow x ps)"
| "follow v (First # ps) = and_then (get_first v) (\<lambda>x. follow x ps)"

fun reply_path :: "provider \<Rightarrow> path_step list" where
  "reply_path openai = [Prop (js ''choices''), First, Prop (js ''message''), Prop (js ''content'')]"
| "reply_path claude = [Prop (js ''content''), First, Prop (js ''text'')]"
| "reply_path gemini =
     [Prop (js ''candidates''), First, Prop (js ''content''), Prop (js ''parts''), First,
      Prop (js ''text'')]"

lemma reply_text_follows_path:
  "reply_text p data =
     and_then (follow (Some data) (reply_path p)) (\<lambda>v. Inr (or_else v (JStr [])))"
proof -
  have bind: "and_then (and_then m f) g = and_then m (\<lambda>x. and_then (f x) g)"
    for m :: "js_error + jsval" and f :: "jsval \<Rightarrow> js_error + jsval"
      and g :: "jsval \<Rightarrow> js_error + json"
    by (cases m) simp_all
  show ?thesis by (cases p) (simp_all add: bind)
qed

lemma openai_request:
  "url (callAI_request openai k s u) = js ''/openai/v1/chat/completions'' \<and>
   headers (callAI_request openai k s u) =
     [(js ''Content-Type'', js ''application/json''), (js ''Authorization'', js ''Bearer '' @ k)] \<and>
   body (callAI_request openai k s u) =
     JObj [(js ''model'', JStr (js ''gpt-4o'')), (js ''max_tokens'', JNum 4000),
           (js ''messages'', JArr
              [JObj [(js ''role'', JStr (js ''system'')), (js ''content'', JStr s)],
               JObj [(js ''role'', JStr (js ''user'')), (js ''content'', JStr u)]])]"
  by (simp add: js_def)

lemma claude_request:
  "url (callAI_request claude k s u) = js ''/claude/v1/messages'' \<and>
   headers (callAI_request claude k s u) =
     [(js ''Content-Type'', js ''application/json''), (js ''x-api-key'', k),
      (js ''anthropic-version'', js ''2023-06-01''),
      (js ''anthropic-dangerous-direct-browser-access'', js ''true'')] \<and>
   body (callAI_request claude k s u) =
     JObj [(js ''model'', JStr (js ''claude-sonnet-4-20250514'')), (js ''max_tokens'', JNum 4000),
           (js ''system'', JStr s),
           (js ''messages'', JArr
              [JObj [(js ''role'', JStr (js ''user'')), (js ''content'', JStr u)]])]"
  by (simp add: js_def)

lemma gemini_request:
  "url (callAI_request gemini k s u) =
     js ''/gemini/v1beta/models/gemini-1.5-pro:generateContent?key='' @ k \<and>
   headers (callAI_request gemini k s u) = [(js ''Content-Type'', js ''application/json'')] \<and>
   body (callAI_request gemini k s u) =
     JObj [(js ''contents'', JArr
              [JObj [(js ''parts'', JArr
                 [JObj [(js ''text'', JStr (s @ js ''\<newline>\<newline>'' @ u))]])]]),
           (js ''generationConfig'', JObj [(js ''maxOutputTokens'', JNum 4000)])]"
  by (simp add: js_def)

lemma every_request:
  "http_method (callAI_request p k s u) = js ''POST'' \<and>
   map_of (headers (callAI_request p k s u)) (js ''Content-Type'') = Some (js ''application/json'')"
  by (cases p) (simp_all add: js_def)

lemma auth_shapes:
  "(map_of (headers (callAI_request p k s u)) (js ''Authorization'') \<noteq> None) = (p = openai) \<and>
   (map_of (headers (callAI_request p k s u)) (js ''x-api-key'') \<noteq> None) = (p = claude) \<and>
   sublist (js ''?key='') (url (callAI_request p k s u)) = (p = gemini)"
proof (cases p)
  case openai
  have "find_first (js ''?key='') (js ''/openai/v1/chat/completions'') = None"
    by (simp add: js_def)
  then have "\<not> sublist (js ''?key='') (js ''/openai/v1/chat/completions'')"
    by (simp add: find_first_None_iff)
  with openai show ?thesis by (simp add: js_def)
next
  case claude
  have "find_first (js ''?key='') (js ''/claude/v1/messages'') = None"
    by (simp add: js_def)
  then have "\<not> sublist (js ''?key='') (js ''/claude/v1/messages'')"
    by (simp add: find_first_None_iff)
  with claude show ?thesis by (simp add: js_def)
next
  case gemini
  have "js ''/gemini/v1beta/models/gemini-1.5-pro:generateContent?key='' @ k =
        js ''/gemini/v1beta/models/gemini-1.5-pro:generateContent'' @ js ''?key='' @ k"
    by (simp add: js_def)
  then have "sublist (js ''?key='') (js ''/gemini/v1beta/models/gemini-1.5-pro:generateContent?key='' @ k)"
    by (metis sublist_appendI)
  with gemini show ?thesis by (simp add: js_def)
qed

text \<open>The three paths on bodies of the providers' own shapes.\<close>

lemma reply_examples:
  \<open>callAI_settle openai (Inr \<lparr>ok = True, payload = js ''{"choices":[{"index":0,"message":{"role":"assistant","content":"Hi"}}]}''\<rparr>)
     = Inr (JStr (js ''Hi'')) \<and>
   callAI_settle claude (Inr \<lparr>ok = True, payload = js ''{"content":[{"type":"text","text":"Hi"}]}''\<rparr>)
     = Inr (JStr (js ''Hi'')) \<and>
   callAI_settle gemini (Inr \<lparr>ok = True, payload = js ''{"candidates":[{"content":{"parts":[{"text":"Hi"}]}}]}''\<rparr>)
     = Inr (JStr (js ''Hi''))\<close>
  by code_simp

text \<open>
  C8: per provider, the endpoint, the place of the credential, the body and the path of
  the reply are those of the spec's table; every request is a POST of JSON; the bearer
  header is sent to \<open>openai\<close> only, the \<open>x-api-key\<close> header to \<open>claude\<close> only, and
  the key stands in the query string for \<open>gemini\<close> only.
\<close>

theorem callAI_wire_shapes:
  "url (callAI_request openai k s u) = js ''/openai/v1/chat/completions'' \<and>
   headers (callAI_request openai k s u) =
     [(js ''Content-Type'', js ''application/json''), (js ''Authorization'', js ''Bearer '' @ k)] \<and>
   body (callAI_request openai k s u) =
     JObj [(js ''model'', JStr (js ''gpt-4o'')), (js ''max_tokens'', JNum 4000),
           (js ''messages'', JArr
              [JObj [(js ''role'', JStr (js ''system'')), (js ''content'', JStr s)],
               JObj [(js ''role'', JStr (js ''user'')), (js ''content'', JStr u)]])] \<and>
   url (callAI_request claude k s u) = js ''/claude/v1/messages'' \<and>
   headers (callAI_request claude k s u) =
     [(js ''Content-Type'', js ''application/json''), (js ''x-api-key'', k),
      (js ''anthropic-version'', js ''2023-06-01''),
      (js ''anthropic-dangerous-direct-browser-access'', js ''true'')] \<and>
   body (callAI_request claude k s u) =
     JObj [(js ''model'', JStr (js ''claude-sonnet-4-20250514'')), (js ''max_tokens'', JNum 4000),
           (js ''system'', JStr s),
           (js ''messages'', JArr
              [JObj [(js ''role'', JStr (js ''user'')), (js ''content'', JStr u)]])] \<and>
   url (callAI_request gemini k s u) =
     js ''/gemini/v1beta/models/gemini-1.5-pro:generateContent?key='' @ k \<and>
   headers (callAI_request gemini k s u) = [(js ''Content-Type'', js ''application/json'')] \<and>
   body (callAI_request gemini k s u) =
     JObj [(js ''contents'', JArr
              [JObj [(js ''parts'', JArr
                 [JObj [(js ''text'', JStr (s @ js ''\<newline>\<newline>'' @ u))]])]]),
           (js ''generationConfig'', JObj [(js ''maxOutputTokens'', JNum 4000)])] \<and>
   http_method (callAI_request p k s u) = js ''POST'' \<and>
   map_of (headers (callAI_request p k s u)) (js ''Content-Type'') = Some (js ''application/json'') \<and>
   reply_text p data =
     and_then (follow (Some data) (reply_path p)) (\<lambda>v. Inr (or_else v (JStr []))) \<and>
   (map_of (headers (callAI_request p k s u)) (js ''Authorization'') \<noteq> None) = (p = openai) \<and>
   (map_of (headers (callAI_request p k s u)) (js ''x-api-key'') \<noteq> None) = (p = claude) \<and>
   sublist (js ''?key='') (url (callAI_request p k s u)) = (p = gemini)"
  using openai_request [of k s u] claude_request [of k s u] gemini_request [of k s u]
    every_request [of p k s u] reply_text_follows_path [of p data] auth_shapes [of p k s u]
  by blast

end
